theory Spec2Isabelle
  imports Main
begin

section \<open>Bucket storage of cuCollections: the data model\<close>

text \<open>
  The file \<^verbatim>\<open>include/cuco/detail/storage/bucket_storage.inl\<close> defines the member functions of
  two class templates: the host-side owner \<^verbatim>\<open>bucket_storage<T, BucketSize, Extent, Allocator>\<close>
  and the device-side handle \<^verbatim>\<open>bucket_storage_ref<T, BucketSize, Extent>\<close>, with its nested
  \<^verbatim>\<open>iterator\<close>.

  Pointers are byte addresses. Addresses and counts are natural numbers: the counts of the
  source are \<^verbatim>\<open>size_type\<close> values and every address computed below lies inside or one past
  an allocation of the device, so no computation of the model reaches the 64-bit limit on a
  machine that can hold the buffer.
\<close>

type_synonym addr = nat

text \<open>
  What an instantiation fixes at compile time: the template argument \<^verbatim>\<open>BucketSize\<close> (the
  static member \<^verbatim>\<open>bucket_size\<close>), the size in bytes of the slot type \<^verbatim>\<open>T\<close>
  (\<^verbatim>\<open>sizeof(value_type)\<close>), and the library constant \<^verbatim>\<open>cuco::detail::default_block_size()\<close>
  of \<^verbatim>\<open>cuco/detail/utility/cuda.hpp\<close>, whose value is not among the sources and is therefore
  a parameter.
\<close>

record params =
  bucket_size :: nat
  sizeof_value :: nat
  default_block_size :: nat

text \<open>
  Modelled from the spec: the type \<^verbatim>\<open>bucket_type\<close> is declared outside the sources. The spec
  describes a bucket as a contiguous group of exactly \<^verbatim>\<open>BucketSize\<close> slots laid out as an
  aligned array, so its size is \<^verbatim>\<open>BucketSize * sizeof(T)\<close>.
\<close>

definition sizeof_bucket :: "params \<Rightarrow> nat" where
  "sizeof_bucket P = bucket_size P * sizeof_value P"

text \<open>
  Pointer arithmetic of C++ on a \<^verbatim>\<open>bucket_type*\<close> and on a \<^verbatim>\<open>value_type*\<close>: adding \<open>k\<close> moves
  the address by \<open>k\<close> objects of the pointee type. A \<^verbatim>\<open>reinterpret_cast\<close> between the two
  pointer types keeps the address.
\<close>

definition bucket_ptr_add :: "params \<Rightarrow> addr \<Rightarrow> nat \<Rightarrow> addr" where
  "bucket_ptr_add P p k = p + k * sizeof_bucket P"

definition value_ptr_add :: "params \<Rightarrow> addr \<Rightarrow> nat \<Rightarrow> addr" where
  "value_ptr_add P p k = p + k * sizeof_value P"

definition reinterpret_cast :: "addr \<Rightarrow> addr" where
  "reinterpret_cast p = p"

subsection \<open>The common base class\<close>

text \<open>
  Both classes derive from \<^verbatim>\<open>detail::bucket_storage_base<T, BucketSize, Extent>\<close> and initialise
  it with the extent they are given. The extent is modelled by the number it converts to.
\<close>

record bucket_storage_base =
  extent :: nat

text \<open>
  Modelled from the spec: the members \<^verbatim>\<open>num_buckets()\<close>, \<^verbatim>\<open>capacity()\<close> and
  \<^verbatim>\<open>bucket_extent()\<close> of the base class live in \<^verbatim>\<open>cuco/detail/storage/storage_base.cuh\<close>, which
  is not among the sources. The spec has the extent convert to a count of buckets, gives the
  capacity law \<^verbatim>\<open>capacity == num_buckets * BucketSize\<close> (a count of slots), and has
  \<^verbatim>\<open>ref()\<close> hand the bucket extent on unchanged.
\<close>

definition num_buckets :: "'a bucket_storage_base_scheme \<Rightarrow> nat" where
  "num_buckets s = extent s"

definition capacity :: "params \<Rightarrow> 'a bucket_storage_base_scheme \<Rightarrow> nat" where
  "capacity P s = num_buckets s * bucket_size P"

definition bucket_extent :: "'a bucket_storage_base_scheme \<Rightarrow> nat" where
  "bucket_extent s = extent s"

subsection \<open>The device-side handle and its iterator\<close>

text \<open>
  \<^verbatim>\<open>bucket_storage_ref(Extent size, bucket_type* buckets)\<close> stores both arguments.
\<close>

record bucket_storage_ref = bucket_storage_base +
  ref_buckets :: addr

definition bucket_storage_ref :: "nat \<Rightarrow> addr \<Rightarrow> bucket_storage_ref" where
  "bucket_storage_ref sz buckets = \<lparr>extent = sz, ref_buckets = buckets\<rparr>"

text \<open>
  The nested \<^verbatim>\<open>iterator\<close> holds one slot pointer, \<^verbatim>\<open>current_\<close>. The type \<^verbatim>\<open>const_iterator\<close>
  names the same class.
\<close>

record iterator =
  current :: addr

definition iterator :: "addr \<Rightarrow> iterator" where
  "iterator p = \<lparr>current = p\<rparr>"

text \<open>\<^verbatim>\<open>operator->\<close> returns the pointer held.\<close>

definition iterator_arrow :: "iterator \<Rightarrow> addr" where
  "iterator_arrow it = current it"

text \<open>\<^verbatim>\<open>operator==\<close> compares the pointers held; \<^verbatim>\<open>operator!=\<close> is \<^verbatim>\<open>not(lhs == rhs)\<close>.\<close>

definition iterator_eq :: "iterator \<Rightarrow> iterator \<Rightarrow> bool" where
  "iterator_eq lhs rhs = (current lhs = current rhs)"

definition iterator_neq :: "iterator \<Rightarrow> iterator \<Rightarrow> bool" where
  "iterator_neq lhs rhs = (\<not> iterator_eq lhs rhs)"

text \<open>
  \<^verbatim>\<open>data()\<close> of the handle, in its non-const and its const overload: both return
  \<^verbatim>\<open>buckets_\<close>.
\<close>

definition ref_data :: "bucket_storage_ref \<Rightarrow> addr" where
  "ref_data r = ref_buckets r"

definition ref_data_const :: "bucket_storage_ref \<Rightarrow> addr" where
  "ref_data_const r = ref_buckets r"

text \<open>
  \<^verbatim>\<open>end()\<close> of the handle, in its non-const and its const overload. Both build an iterator from
  \<^verbatim>\<open>reinterpret_cast<value_type*>(this->data() + this->capacity())\<close>: the sum is formed on the
  \<^verbatim>\<open>bucket_type*\<close> that \<^verbatim>\<open>data()\<close> returns, and the cast comes after it.
\<close>

definition ref_end :: "params \<Rightarrow> bucket_storage_ref \<Rightarrow> iterator" where
  "ref_end P r = iterator (reinterpret_cast (bucket_ptr_add P (ref_data r) (capacity P r)))"

definition ref_end_const :: "params \<Rightarrow> bucket_storage_ref \<Rightarrow> iterator" where
  "ref_end_const P r =
     iterator (reinterpret_cast (bucket_ptr_add P (ref_data_const r) (capacity P r)))"

text \<open>
  The slots of a buffer of buckets at \<open>base\<close>, numbered from 0: slot \<open>i\<close> is the \<open>i\<close>-th
  \<^verbatim>\<open>value_type\<close> object after \<open>base\<close>. Slot \<open>k\<close> of bucket \<open>b\<close> has the number
  \<open>b * bucket_size P + k\<close>.
\<close>

definition slot_address :: "params \<Rightarrow> addr \<Rightarrow> nat \<Rightarrow> addr" where
  "slot_address P base i = value_ptr_add P (reinterpret_cast base) i"

subsection \<open>Device memory and \<^verbatim>\<open>operator[]\<close>\<close>

text \<open>
  Device memory maps the address of a slot to the value stored there; an address that holds
  no slot (memory that was never written, or that is not allocated) maps to \<open>None\<close>.
\<close>

type_synonym 'v memory = "addr \<Rightarrow> 'v option"

text \<open>
  What the handle leaves undefined is a value of the model: reading through a pointer that
  breaks the alignment promised to the compiler, and reading a slot that holds no value.
\<close>

datatype fault = Misaligned | Invalid_Read

text \<open>
  \<^verbatim>\<open>__builtin_assume_aligned(p, a)\<close> returns \<open>p\<close> and tells the compiler that \<open>p\<close> is a multiple
  of \<open>a\<close>; the behaviour is undefined when it is not.
\<close>

definition builtin_assume_aligned :: "addr \<Rightarrow> nat \<Rightarrow> fault + addr" where
  "builtin_assume_aligned p a = (if p mod a = 0 then Inr p else Inl Misaligned)"

text \<open>
  Reading a \<^verbatim>\<open>bucket_type\<close> by value through a pointer: the \<^verbatim>\<open>bucket_size\<close> slots that start at
  the address, in order.
\<close>

definition load_bucket :: "params \<Rightarrow> 'v memory \<Rightarrow> addr \<Rightarrow> fault + 'v list" where
  "load_bucket P mem p =
     (case those (map (\<lambda>k. mem (value_ptr_add P p k)) [0..<bucket_size P]) of
        None \<Rightarrow> Inl Invalid_Read
      | Some vs \<Rightarrow> Inr vs)"

text \<open>
  \<^verbatim>\<open>operator[](size_type index)\<close>:
  \<^verbatim>\<open>*reinterpret_cast<bucket_type*>(__builtin_assume_aligned(this->data() + index,
  sizeof(value_type) * bucket_size))\<close>. Nothing compares \<open>index\<close> with the number of buckets.
\<close>

definition ref_subscript ::
  "params \<Rightarrow> bucket_storage_ref \<Rightarrow> nat \<Rightarrow> 'v memory \<Rightarrow> fault + 'v list" where
  "ref_subscript P r index mem =
     (case builtin_assume_aligned (bucket_ptr_add P (ref_data_const r) index)
             (sizeof_value P * bucket_size P) of
        Inl e \<Rightarrow> Inl e
      | Inr p \<Rightarrow> load_bucket P mem (reinterpret_cast p))"

section \<open>Streams and the initialisation kernel\<close>

text \<open>
  A kernel launch \<^verbatim>\<open>detail::initialize<<<grid, block, 0, stream>>>(buckets, n, value)\<close>, as the
  stream keeps it until it runs.
\<close>

datatype 'v launch =
  Initialize_Launch (grid: nat) (block: nat) (arg_buckets: addr) (arg_n: nat) (arg_value: 'v)

text \<open>
  Modelled from the spec: the kernel \<^verbatim>\<open>detail::initialize\<close> lives in
  \<^verbatim>\<open>cuco/detail/storage/kernels.cuh\<close>, which is not among the sources. The spec describes a
  grid-stride fill: each parallel unit writes multiple slots separated by the total grid
  stride, until the whole buffer has been covered. The launch hands the kernel a bucket
  pointer and the number of buckets, so a thread walks bucket indices and writes the value to
  every slot of each bucket it visits.
\<close>

definition write_bucket :: "params \<Rightarrow> addr \<Rightarrow> 'v \<Rightarrow> 'v memory \<Rightarrow> 'v memory" where
  "write_bucket P p v mem =
     fold (\<lambda>k m. m(value_ptr_add P p k \<mapsto> v)) [0..<bucket_size P] mem"

text \<open>
  The loop of one thread, \<^verbatim>\<open>while (idx < n) { fill bucket idx; idx += loop_stride; }\<close>. The
  stride is the number of threads of the launch. A thread exists only in a launch of at least
  one thread, so the stride is positive wherever the loop runs; the test \<open>0 < loop_stride\<close>
  only makes the recursion total.
\<close>

function thread_fill ::
  "params \<Rightarrow> addr \<Rightarrow> nat \<Rightarrow> 'v \<Rightarrow> nat \<Rightarrow> nat \<Rightarrow> 'v memory \<Rightarrow> 'v memory" where
  "thread_fill P buckets n v loop_stride idx mem =
     (if idx < n \<and> 0 < loop_stride
      then thread_fill P buckets n v loop_stride (idx + loop_stride)
             (write_bucket P (bucket_ptr_add P buckets idx) v mem)
      else mem)"
  by pat_completeness auto
termination
  by (relation "measure (\<lambda>(P, buckets, n, v, loop_stride, idx, mem). n - idx)") auto

declare thread_fill.simps [simp del]

text \<open>
  A launch runs \<open>grid * block\<close> threads, thread \<open>t\<close> starting at bucket \<open>t\<close>. The threads run
  concurrently on the device; they write disjoint buckets, and the same value, so the memory
  they leave does not depend on their order, and the model runs them in the order of their
  ids. A launch of no thread runs nothing.
\<close>

definition run_launch :: "params \<Rightarrow> 'v launch \<Rightarrow> 'v memory \<Rightarrow> 'v memory" where
  "run_launch P l mem =
     fold (\<lambda>t m. thread_fill P (arg_buckets l) (arg_n l) (arg_value l) (grid l * block l) t m)
       [0..<grid l * block l] mem"

text \<open>
  Modelled from the spec: \<^verbatim>\<open>cuco::detail::grid_size\<close> lives in
  \<^verbatim>\<open>cuco/detail/utility/cuda.hpp\<close>, which is not among the sources. The spec sizes the grid
  from the number of buckets with the configuration (work group size, stride, block size):
  enough blocks for each thread to cover \<open>stride\<close> buckets, that is the quotient of
  \<open>cg_size * num\<close> by \<open>stride * block_size\<close>, rounded up.
\<close>

definition grid_size :: "params \<Rightarrow> nat \<Rightarrow> nat \<Rightarrow> nat \<Rightarrow> nat" where
  "grid_size P num cg_size stride =
     (cg_size * num + stride * default_block_size P - 1) div (stride * default_block_size P)"

text \<open>
  The host's view of the device: the memory, the launches each stream still holds in
  submission order, and the number of kernels launched so far. A stream is named by a number.
\<close>

record 'v device =
  memory :: "'v memory"
  pending :: "nat \<Rightarrow> 'v launch list"
  launched :: nat

text \<open>
  A launch on a stream is kept behind the launches the stream already holds.
\<close>

definition launch_kernel :: "nat \<Rightarrow> 'v launch \<Rightarrow> 'v device \<Rightarrow> 'v device" where
  "launch_kernel stream l d =
     d\<lparr>pending := (pending d)(stream := pending d stream @ [l]), launched := Suc (launched d)\<rparr>"

text \<open>
  \<^verbatim>\<open>stream.wait()\<close> blocks the host until the stream has drained: the launches the stream holds
  run in submission order, and none is left. The model runs a stream's launches when the
  host waits for it, which is the latest moment the stream order allows.
\<close>

definition stream_wait :: "params \<Rightarrow> nat \<Rightarrow> 'v device \<Rightarrow> 'v device" where
  "stream_wait P stream d =
     d\<lparr>memory := fold (run_launch P) (pending d stream) (memory d),
       pending := (pending d)(stream := [])\<rparr>"

section \<open>The host-side owner\<close>

text \<open>
  The allocator is a collaborator: \<^verbatim>\<open>allocate(n)\<close> returns a pointer or fails. The deleter
  type \<^verbatim>\<open>bucket_deleter_type\<close> holds the two values its constructor is given, and the smart
  pointer \<^verbatim>\<open>buckets_\<close> holds a pointer and a deleter.
\<close>

record allocator =
  allocator_id :: nat
  allocate :: "nat \<Rightarrow> addr option"

record bucket_deleter =
  deleter_size :: nat
  deleter_allocator :: allocator

record buckets_ptr =
  get :: addr
  get_deleter :: bucket_deleter

record bucket_storage = bucket_storage_base +
  allocator_member :: allocator
  bucket_deleter_member :: bucket_deleter
  buckets_member :: buckets_ptr

text \<open>The calls an allocator receives, in order.\<close>

datatype alloc_call = Allocate allocator nat addr | Deallocate allocator addr nat

datatype error = Allocation_Failure

text \<open>
  The constructor, in the order of its member initialisers: the base from \<open>sz\<close>,
  \<^verbatim>\<open>allocator_{allocator}\<close>, \<^verbatim>\<open>bucket_deleter_{capacity(), allocator_}\<close>,
  \<^verbatim>\<open>buckets_{allocator_.allocate(capacity()), bucket_deleter_}\<close>. A failing allocation leaves
  the constructor by the allocator's exception, and no object exists.
\<close>

definition bucket_storage ::
  "params \<Rightarrow> nat \<Rightarrow> allocator \<Rightarrow> alloc_call list \<Rightarrow> error + (bucket_storage \<times> alloc_call list)" where
  "bucket_storage P sz a calls =
     (let base = \<lparr>extent = sz\<rparr>;
          del = \<lparr>deleter_size = capacity P base, deleter_allocator = a\<rparr>
      in case allocate a (capacity P base) of
           None \<Rightarrow> Inl Allocation_Failure
         | Some p \<Rightarrow>
             Inr (\<lparr>extent = sz, allocator_member = a, bucket_deleter_member = del,
                   buckets_member = \<lparr>get = p, get_deleter = del\<rparr>\<rparr>,
                  calls @ [Allocate a (capacity P base) p]))"

text \<open>
  Modelled from the spec: the call operator of the deleter and the destructor of the owner are
  not among the sources. The spec has the owner release its memory through the stored
  deleter, which deallocates exactly the count it captured with the allocator it captured.
\<close>

definition run_deleter :: "bucket_deleter \<Rightarrow> addr \<Rightarrow> alloc_call list \<Rightarrow> alloc_call list" where
  "run_deleter del p calls = calls @ [Deallocate (deleter_allocator del) p (deleter_size del)]"

definition destroy :: "bucket_storage \<Rightarrow> alloc_call list \<Rightarrow> alloc_call list" where
  "destroy s calls = run_deleter (get_deleter (buckets_member s)) (get (buckets_member s)) calls"

text \<open>\<^verbatim>\<open>data()\<close> returns \<^verbatim>\<open>buckets_.get()\<close>, \<^verbatim>\<open>allocator()\<close> returns \<^verbatim>\<open>allocator_\<close>.\<close>

definition storage_data :: "bucket_storage \<Rightarrow> addr" where
  "storage_data s = get (buckets_member s)"

definition storage_allocator :: "bucket_storage \<Rightarrow> allocator" where
  "storage_allocator s = allocator_member s"

text \<open>
  \<^verbatim>\<open>ref()\<close> returns \<^verbatim>\<open>ref_type{this->bucket_extent(), this->data()}\<close>. It is a const member
  function: it reads the owner and returns a value, so it is a function of the owner alone.
\<close>

definition storage_ref :: "bucket_storage \<Rightarrow> bucket_storage_ref" where
  "storage_ref s = bucket_storage_ref (bucket_extent s) (storage_data s)"

text \<open>
  \<^verbatim>\<open>initialize_async(key, stream)\<close>: return at once when there is no bucket; otherwise launch
  the kernel on the stream, with \<^verbatim>\<open>cg_size = 1\<close>, \<^verbatim>\<open>stride = 4\<close>, a grid of
  \<^verbatim>\<open>grid_size(num_buckets(), cg_size, stride)\<close> blocks of \<^verbatim>\<open>default_block_size()\<close> threads, and
  the arguments \<^verbatim>\<open>(data(), num_buckets(), key)\<close>. Nothing in it waits.
\<close>

definition initialize_async ::
  "params \<Rightarrow> bucket_storage \<Rightarrow> 'v \<Rightarrow> nat \<Rightarrow> 'v device \<Rightarrow> 'v device" where
  "initialize_async P s key stream d =
     (if num_buckets s = 0 then d
      else
        let cg_size = 1; stride = 4;
            grid_sz = grid_size P (num_buckets s) cg_size stride
        in launch_kernel stream
             (Initialize_Launch grid_sz (default_block_size P) (storage_data s) (num_buckets s) key)
             d)"

text \<open>
  \<^verbatim>\<open>initialize(key, stream)\<close>: \<^verbatim>\<open>this->initialize_async(key, stream); stream.wait();\<close>.
\<close>

definition initialize ::
  "params \<Rightarrow> bucket_storage \<Rightarrow> 'v \<Rightarrow> nat \<Rightarrow> 'v device \<Rightarrow> 'v device" where
  "initialize P s key stream d = stream_wait P stream (initialize_async P s key stream d)"

text \<open>
  The launches \<^verbatim>\<open>initialize_async\<close> hands to the stream: none for a storage without buckets,
  the one fill of the storage otherwise.
\<close>

definition submitted_work :: "params \<Rightarrow> bucket_storage \<Rightarrow> 'v \<Rightarrow> 'v launch list" where
  "submitted_work P s key =
     (if num_buckets s = 0 then []
      else [Initialize_Launch (grid_size P (num_buckets s) 1 4) (default_block_size P)
              (storage_data s) (num_buckets s) key])"

section \<open>The increment operators of the iterator\<close>

text \<open>
  The iterator declares
  \<^verbatim>\<open>__device__ constexpr iterator& operator++() noexcept\<close> and
  \<^verbatim>\<open>__device__ constexpr iterator operator++(int32_t) noexcept\<close>, both with the body
  \<^verbatim>\<open>{ static_assert("Un-incrementable input iterator"); }\<close>: one static assertion whose only
  operand is a string literal, and no return statement. The iterator is nested in a class
  template, so the definition of a member is instantiated, and checked in full, only where a
  program uses the member. What the compiler does at such a use is modelled on the
  declaration: its \<^verbatim>\<open>constexpr\<close> specifier, its return type and the statements of its body.
\<close>

datatype constant_expression = String_Literal string | Bool_Literal bool

text \<open>
  The operand of a static assertion is contextually converted to \<^verbatim>\<open>bool\<close>; a string literal
  is an array, which decays to the address of its first character, and the address of an
  object is not null.
\<close>

fun contextually_converted_to_bool :: "constant_expression \<Rightarrow> bool" where
  "contextually_converted_to_bool (String_Literal s) = True"
| "contextually_converted_to_bool (Bool_Literal b) = b"

datatype statement = Static_Assert constant_expression | Return_Statement

datatype return_type = Void | Iterator_Reference | Iterator_Value

record member_function =
  is_constexpr :: bool
  declared_return :: return_type
  body :: "statement list"

text \<open>A static assertion makes the program ill-formed when its operand converts to false.\<close>

fun ill_formed :: "statement \<Rightarrow> bool" where
  "ill_formed (Static_Assert e) = (\<not> contextually_converted_to_bool e)"
| "ill_formed Return_Statement = False"

text \<open>
  An instantiated \<^verbatim>\<open>constexpr\<close> function whose return type is not \<^verbatim>\<open>void\<close> and whose body holds
  no return statement is an error to the compiler (``no return statement in constexpr
  function returning non-void''). Without the \<^verbatim>\<open>constexpr\<close> the same body draws a warning at
  most.
\<close>

definition constexpr_without_return :: "member_function \<Rightarrow> bool" where
  "constexpr_without_return f =
     (is_constexpr f \<and> declared_return f \<noteq> Void \<and> Return_Statement \<notin> set (body f))"

definition rejected_at_compile_time :: "member_function \<Rightarrow> bool" where
  "rejected_at_compile_time f = (list_ex ill_formed (body f) \<or> constexpr_without_return f)"

text \<open>
  A use of a member that the compiler rejects never runs. A call of a function that the
  compiler accepts runs its body; a function with a return type other than \<^verbatim>\<open>void\<close> whose
  body ends without a return statement has undefined behaviour.
\<close>

datatype call_outcome = Compile_Error | Returns | Flows_Off_The_End

definition call_outcome :: "member_function \<Rightarrow> call_outcome" where
  "call_outcome f =
     (if rejected_at_compile_time f then Compile_Error
      else if Return_Statement \<in> set (body f) \<or> declared_return f = Void then Returns
      else Flows_Off_The_End)"

definition prefix_increment :: member_function where
  "prefix_increment =
     \<lparr>is_constexpr = True, declared_return = Iterator_Reference,
      body = [Static_Assert (String_Literal ''Un-incrementable input iterator'')]\<rparr>"

definition postfix_increment :: member_function where
  "postfix_increment =
     \<lparr>is_constexpr = True, declared_return = Iterator_Value,
      body = [Static_Assert (String_Literal ''Un-incrementable input iterator'')]\<rparr>"

section \<open>Example objects\<close>

text \<open>
  Concrete instantiations and objects at which the theorems below are exercised: buckets of
  two 4-byte slots and of four 2-byte slots, an allocator that hands out one fixed address,
  the owner the constructor builds from it, and a device on which nothing is pending.
\<close>

definition params_2x4 :: params where
  "params_2x4 = \<lparr>bucket_size = 2, sizeof_value = 4, default_block_size = 2\<rparr>"

definition params_4x2 :: params where
  "params_4x2 = \<lparr>bucket_size = 4, sizeof_value = 2, default_block_size = 128\<rparr>"

definition allocator_at :: "addr \<Rightarrow> allocator" where
  "allocator_at p = \<lparr>allocator_id = 1, allocate = (\<lambda>n. Some p)\<rparr>"

definition storage_at :: "addr \<Rightarrow> params \<Rightarrow> nat \<Rightarrow> bucket_storage" where
  "storage_at p P n =
     \<lparr>extent = n, allocator_member = allocator_at p,
      bucket_deleter_member = \<lparr>deleter_size = n * bucket_size P, deleter_allocator = allocator_at p\<rparr>,
      buckets_member = \<lparr>get = p,
        get_deleter = \<lparr>deleter_size = n * bucket_size P, deleter_allocator = allocator_at p\<rparr>\<rparr>\<rparr>"

definition idle_device :: "nat device" where
  "idle_device = \<lparr>memory = (\<lambda>a. None), pending = (\<lambda>stream. []), launched = 0\<rparr>"

section \<open>Properties\<close>

subsection \<open>Auxiliary facts about the fill\<close>

lemma fold_upd_apply:
  "fold (\<lambda>k m. m(f k \<mapsto> v)) ks mem a = (if a \<in> f ` set ks then Some v else mem a)"
  by (induction ks arbitrary: mem) auto

lemma write_bucket_apply:
  "write_bucket P p v mem a =
     (if a \<in> value_ptr_add P p ` {0..<bucket_size P} then Some v else mem a)"
  by (simp add: write_bucket_def fold_upd_apply)

lemma write_bucket_keeps: "mem a = Some v \<Longrightarrow> write_bucket P p v mem a = Some v"
  by (simp add: write_bucket_apply)

lemma write_bucket_sets: "k < bucket_size P \<Longrightarrow> write_bucket P p v mem (value_ptr_add P p k) = Some v"
  by (simp add: write_bucket_apply)

lemma thread_fill_keeps:
  "mem a = Some v \<Longrightarrow> thread_fill P buckets n v loop_stride idx mem a = Some v"
proof (induction P buckets n v loop_stride idx mem rule: thread_fill.induct)
  case (1 P buckets n v loop_stride idx mem)
  show ?case
  proof (cases "idx < n \<and> 0 < loop_stride")
    case True
    have "write_bucket P (bucket_ptr_add P buckets idx) v mem a = Some v"
      using "1.prems" by (rule write_bucket_keeps)
    with True "1.IH" show ?thesis by (subst thread_fill.simps) simp
  next
    case False
    with "1.prems" show ?thesis by (subst thread_fill.simps) auto
  qed
qed

lemma thread_fill_sets:
  assumes "0 < loop_stride" "idx + j * loop_stride < n" "k < bucket_size P"
  shows "thread_fill P buckets n v loop_stride idx mem
           (value_ptr_add P (bucket_ptr_add P buckets (idx + j * loop_stride)) k) = Some v"
  using assms
proof (induction j arbitrary: idx mem)
  case 0
  then have "idx < n" by simp
  moreover have "thread_fill P buckets n v loop_stride (idx + loop_stride)
      (write_bucket P (bucket_ptr_add P buckets idx) v mem)
      (value_ptr_add P (bucket_ptr_add P buckets idx) k) = Some v"
    using "0.prems"(3) by (intro thread_fill_keeps write_bucket_sets)
  ultimately show ?case using "0.prems"(1) by (subst thread_fill.simps) simp
next
  case (Suc j)
  then have lt: "idx < n" by simp
  have step: "(idx + loop_stride) + j * loop_stride < n" using Suc.prems(2) by (simp add: ac_simps)
  have "thread_fill P buckets n v loop_stride (idx + loop_stride)
      (write_bucket P (bucket_ptr_add P buckets idx) v mem)
      (value_ptr_add P (bucket_ptr_add P buckets ((idx + loop_stride) + j * loop_stride)) k) = Some v"
    using Suc.IH [OF Suc.prems(1) step Suc.prems(3)] .
  moreover have "(idx + loop_stride) + j * loop_stride = idx + Suc j * loop_stride" by simp
  ultimately show ?case using lt Suc.prems(1) by (subst thread_fill.simps) simp
qed

lemma fold_keeps:
  assumes keep: "\<And>x m. Q m \<Longrightarrow> Q (f x m)" and start: "Q m"
  shows "Q (fold f xs m)"
  using start by (induction xs arbitrary: m) (auto intro: keep)

lemma fold_establishes:
  assumes keep: "\<And>x m. Q m \<Longrightarrow> Q (f x m)" and est: "\<And>m. Q (f x0 m)" and mem: "x0 \<in> set xs"
  shows "Q (fold f xs m)"
  using mem
proof (induction xs arbitrary: m)
  case Nil
  then show ?case by simp
next
  case (Cons x xs)
  show ?case
  proof (cases "x = x0")
    case True
    have "Q (fold f xs (f x0 m))" using keep est by (rule fold_keeps)
    with True show ?thesis by simp
  next
    case False
    with Cons show ?thesis by simp
  qed
qed

lemma run_launch_keeps:
  assumes "mem a = Some (arg_value l)"
  shows "run_launch P l mem a = Some (arg_value l)"
  unfolding run_launch_def
proof (rule fold_keeps [where Q = "\<lambda>m. m a = Some (arg_value l)"])
  show "thread_fill P (arg_buckets l) (arg_n l) (arg_value l) (grid l * block l) x m a = Some (arg_value l)"
    if "m a = Some (arg_value l)" for x m
    using that by (rule thread_fill_keeps)
  show "mem a = Some (arg_value l)" by (rule assms)
qed

lemma run_launch_sets:
  assumes threads: "0 < grid l * block l" and b: "b < arg_n l" and k: "k < bucket_size P"
  shows "run_launch P l mem (value_ptr_add P (bucket_ptr_add P (arg_buckets l) b) k) = Some (arg_value l)"
proof -
  let ?G = "grid l * block l"
  let ?a = "value_ptr_add P (bucket_ptr_add P (arg_buckets l) b) k"
  have split: "b mod ?G + (b div ?G) * ?G = b" by (rule mod_div_mult_eq)
  have t: "b mod ?G \<in> set [0..<?G]" using threads by simp
  have lt: "b mod ?G + (b div ?G) * ?G < arg_n l" using b by (simp only: split)
  have est: "thread_fill P (arg_buckets l) (arg_n l) (arg_value l) ?G (b mod ?G) m ?a = Some (arg_value l)" for m
    using thread_fill_sets [OF threads lt k, of "arg_buckets l" "arg_value l" m] by (simp only: split)
  show ?thesis
    unfolding run_launch_def
  proof (rule fold_establishes [where Q = "\<lambda>m. m ?a = Some (arg_value l)" and ?x0.0 = "b mod ?G"])
    show "thread_fill P (arg_buckets l) (arg_n l) (arg_value l) ?G x m ?a = Some (arg_value l)"
      if "m ?a = Some (arg_value l)" for x m
      using that by (rule thread_fill_keeps)
    show "thread_fill P (arg_buckets l) (arg_n l) (arg_value l) ?G (b mod ?G) m ?a = Some (arg_value l)" for m
      by (rule est)
    show "b mod ?G \<in> set [0..<?G]" by (rule t)
  qed
qed

lemma grid_size_positive:
  assumes "0 < num" "0 < cg_size" "0 < stride" "0 < default_block_size P"
  shows "0 < grid_size P num cg_size stride"
proof -
  let ?d = "stride * default_block_size P"
  have d: "0 < ?d" using assms by simp
  have "0 < cg_size * num" using assms by simp
  then have "?d \<le> cg_size * num + ?d - 1" by linarith
  then have "?d div ?d \<le> (cg_size * num + ?d - 1) div ?d" by (rule div_le_mono)
  with d show ?thesis by (simp add: grid_size_def)
qed

lemma slot_in_bucket:
  assumes "0 < bucket_size P"
  shows "slot_address P base i =
         value_ptr_add P (bucket_ptr_add P base (i div bucket_size P)) (i mod bucket_size P)"
proof -
  have "i * sizeof_value P = (i div bucket_size P * bucket_size P + i mod bucket_size P) * sizeof_value P"
    by simp
  also have "\<dots> = i div bucket_size P * (bucket_size P * sizeof_value P) + i mod bucket_size P * sizeof_value P"
    by (simp only: add_mult_distrib mult.assoc)
  finally show ?thesis
    by (simp add: slot_address_def value_ptr_add_def bucket_ptr_add_def sizeof_bucket_def
        reinterpret_cast_def)
qed

lemma initialize_memory:
  assumes "num_buckets s \<noteq> 0"
  shows "memory (initialize P s key stream d) =
         run_launch P (Initialize_Launch (grid_size P (num_buckets s) 1 4) (default_block_size P)
                         (storage_data s) (num_buckets s) key)
           (fold (run_launch P) (pending d stream) (memory d))"
  using assms by (simp add: initialize_def initialize_async_def stream_wait_def launch_kernel_def)

lemma initialize_fills_bucket:
  assumes block: "0 < default_block_size P" and b: "b < num_buckets s" and k: "k < bucket_size P"
  shows "memory (initialize P s key stream d)
           (value_ptr_add P (bucket_ptr_add P (storage_data s) b) k) = Some key"
proof -
  let ?l = "Initialize_Launch (grid_size P (num_buckets s) 1 4) (default_block_size P)
              (storage_data s) (num_buckets s) key"
  have n: "num_buckets s \<noteq> 0" using b by simp
  have "0 < grid_size P (num_buckets s) 1 4" using b block by (intro grid_size_positive) simp_all
  then have threads: "0 < grid ?l * block ?l" using block by simp
  have "run_launch P ?l m (value_ptr_add P (bucket_ptr_add P (arg_buckets ?l) b) k) = Some (arg_value ?l)" for m
    using threads b k by (intro run_launch_sets) simp_all
  then show ?thesis by (simp add: initialize_memory [OF n])
qed

lemma those_Some: "those (map (\<lambda>k. Some (g k)) xs) = Some (map g xs)"
  by (induction xs) simp_all

lemma load_bucket_filled:
  assumes "\<And>k. k < bucket_size P \<Longrightarrow> mem (value_ptr_add P p k) = Some (g k)"
  shows "load_bucket P mem p = Inr (map g [0..<bucket_size P])"
proof -
  have cells: "map (\<lambda>k. mem (value_ptr_add P p k)) [0..<bucket_size P] =
      map (\<lambda>k. Some (g k)) [0..<bucket_size P]"
    using assms by simp
  show ?thesis unfolding load_bucket_def cells those_Some by simp
qed

lemma bucket_address_aligned:
  assumes "base mod (sizeof_value P * bucket_size P) = 0"
  shows "bucket_ptr_add P base index mod (sizeof_value P * bucket_size P) = 0"
  using assms by (simp add: bucket_ptr_add_def sizeof_bucket_def mult.commute)

lemma initialize_async_empty: "num_buckets s = 0 \<Longrightarrow> initialize_async P s key stream d = d"
  by (simp add: initialize_async_def)

text \<open>
  Where \<^verbatim>\<open>end()\<close> points, and when that is the address of the slot numbered \<open>capacity\<close>.
\<close>

lemma ref_end_address:
  "current (ref_end P r) = ref_data r + capacity P r * sizeof_bucket P"
  by (simp add: ref_end_def iterator_def reinterpret_cast_def bucket_ptr_add_def)

lemma ref_end_one_past_iff:
  assumes "0 < sizeof_value P"
  shows "(current (ref_end P r) = slot_address P (ref_data r) (capacity P r)) =
         (bucket_size P = 1 \<or> capacity P r = 0)"
proof -
  have "(capacity P r * (bucket_size P * sizeof_value P) = capacity P r * sizeof_value P) =
        (bucket_size P = 1 \<or> capacity P r = 0)"
    using assms by auto
  then show ?thesis
    by (simp add: ref_end_address slot_address_def value_ptr_add_def reinterpret_cast_def
        sizeof_bucket_def)
qed

subsection \<open>Initialisation\<close>

text \<open>
  Claim C1. Let the block size be positive. After \<^verbatim>\<open>initialize(key, stream)\<close> has returned, and
  likewise after \<^verbatim>\<open>initialize_async(key, stream)\<close> once the stream has completed, every slot
  \<open>i\<close> below the capacity holds \<open>key\<close>; and for an owner whose base pointer has the alignment
  of a bucket, \<^verbatim>\<open>ref()[b]\<close> is a bucket of \<open>bucket_size\<close> copies of \<open>key\<close> for every bucket
  index \<open>b\<close> below the number of buckets. The kernel and the grid size are modelled from the
  spec; the launch is taken to be one the device accepts.
\<close>

theorem initialize_fills_every_slot:
  assumes "0 < default_block_size P"
  shows "(\<forall>i < capacity P s.
            memory (initialize P s key stream d) (slot_address P (storage_data s) i) = Some key
          \<and> memory (stream_wait P stream (initialize_async P s key stream d))
              (slot_address P (storage_data s) i) = Some key)
       \<and> (storage_data s mod (sizeof_value P * bucket_size P) = 0 \<longrightarrow>
            (\<forall>b < num_buckets s.
               ref_subscript P (storage_ref s) b (memory (initialize P s key stream d))
                 = Inr (replicate (bucket_size P) key)))"
proof (intro conjI allI impI)
  fix i assume i: "i < capacity P s"
  then have bs: "0 < bucket_size P" by (cases "bucket_size P = 0") (simp_all add: capacity_def)
  have b: "i div bucket_size P < num_buckets s"
    using i bs by (simp add: capacity_def less_mult_imp_div_less)
  have k: "i mod bucket_size P < bucket_size P" using bs by simp
  show "memory (initialize P s key stream d) (slot_address P (storage_data s) i) = Some key"
    using initialize_fills_bucket [OF assms b k] by (simp add: slot_in_bucket [OF bs])
  then show "memory (stream_wait P stream (initialize_async P s key stream d))
              (slot_address P (storage_data s) i) = Some key"
    by (simp add: initialize_def)
next
  fix b assume al: "storage_data s mod (sizeof_value P * bucket_size P) = 0" and b: "b < num_buckets s"
  let ?mem = "memory (initialize P s key stream d)"
  let ?p = "bucket_ptr_add P (storage_data s) b"
  have "load_bucket P ?mem ?p = Inr (map (\<lambda>_. key) [0..<bucket_size P])"
  proof (rule load_bucket_filled)
    fix k assume "k < bucket_size P"
    then show "?mem (value_ptr_add P ?p k) = Some key"
      by (rule initialize_fills_bucket [OF assms b])
  qed
  then have "load_bucket P ?mem ?p = Inr (replicate (bucket_size P) key)"
    by (simp add: map_replicate_const)
  moreover have "?p mod (sizeof_value P * bucket_size P) = 0"
    using al by (rule bucket_address_aligned)
  ultimately show "ref_subscript P (storage_ref s) b ?mem = Inr (replicate (bucket_size P) key)"
    by (simp add: ref_subscript_def builtin_assume_aligned_def storage_ref_def
        bucket_storage_ref_def ref_data_const_def reinterpret_cast_def)
qed

theorem initialize_fills_every_slot_witness:
  "0 < default_block_size params_4x2
   \<and> memory (initialize params_4x2 (storage_at 64 params_4x2 3) (65535::nat) 0 idle_device)
       (slot_address params_4x2 (storage_data (storage_at 64 params_4x2 3)) 11) = Some 65535
   \<and> memory (stream_wait params_4x2 0
         (initialize_async params_4x2 (storage_at 64 params_4x2 3) (65535::nat) 0 idle_device))
       (slot_address params_4x2 (storage_data (storage_at 64 params_4x2 3)) 11) = Some 65535
   \<and> ref_subscript params_4x2 (storage_ref (storage_at 64 params_4x2 3)) 2
       (memory (initialize params_4x2 (storage_at 64 params_4x2 3) (65535::nat) 0 idle_device))
       = Inr [65535, 65535, 65535, 65535]"
proof -
  let ?s = "storage_at 64 params_4x2 3"
  have blk: "0 < default_block_size params_4x2" by (simp add: params_4x2_def)
  note T = initialize_fills_every_slot [OF blk, of ?s "65535::nat" 0 idle_device]
  have c: "11 < capacity params_4x2 ?s"
    by (simp add: capacity_def num_buckets_def storage_at_def params_4x2_def)
  have a: "storage_data ?s mod (sizeof_value params_4x2 * bucket_size params_4x2) = 0"
    by (simp add: storage_data_def storage_at_def params_4x2_def)
  have b: "2 < num_buckets ?s" by (simp add: num_buckets_def storage_at_def)
  have r4: "replicate 4 x = [x, x, x, x]" for x :: nat
    by (simp add: numeral_eq_Suc)
  have r: "replicate (bucket_size params_4x2) (65535::nat) = [65535, 65535, 65535, 65535]"
    by (simp add: params_4x2_def r4)
  note slots = T [THEN conjunct1, rule_format, OF c]
  note bucket = T [THEN conjunct2, rule_format, OF a b, unfolded r]
  show ?thesis
    by (intro conjI) (rule blk slots [THEN conjunct1] slots [THEN conjunct2] bucket)+
qed

subsection \<open>The handle\<close>

text \<open>
  Claim C2. The claim has \<^verbatim>\<open>end()\<close> hold the address one past the last slot of the buffer. The
  code adds \<^verbatim>\<open>capacity()\<close>, a count of slots, to a pointer to buckets, so the iterator holds
  the base moved by \<open>capacity\<close> buckets. For one bucket of two 4-byte slots at address 64 the
  slots are at 64 and 68 and the address one past the last slot is 72, while both overloads
  of \<^verbatim>\<open>end()\<close> hold 80.
\<close>

theorem end_beyond_last_slot:
  "capacity params_2x4 (bucket_storage_ref 1 64) = 2
   \<and> slot_address params_2x4 (ref_data (bucket_storage_ref 1 64)) 1 = 68
   \<and> slot_address params_2x4 (ref_data (bucket_storage_ref 1 64)) 2 = 72
   \<and> current (ref_end params_2x4 (bucket_storage_ref 1 64)) = 80
   \<and> current (ref_end_const params_2x4 (bucket_storage_ref 1 64)) = 80"
  by (simp add: ref_end_def ref_end_const_def iterator_def reinterpret_cast_def bucket_ptr_add_def
      sizeof_bucket_def capacity_def num_buckets_def bucket_storage_ref_def ref_data_def
      ref_data_const_def slot_address_def value_ptr_add_def params_2x4_def)

text \<open>
  What decides the fate of a use of an increment operator. The static assertion never fires,
  since its operand is the string literal; the operators are rejected for being
  \<^verbatim>\<open>constexpr\<close> functions that return an iterator and hold no return statement. The same
  declaration without \<^verbatim>\<open>constexpr\<close> would compile and run off the end of its body, and with
  a return statement it would compile and return.
\<close>

lemma static_assertion_never_fires:
  "\<not> list_ex ill_formed (body prefix_increment) \<and> \<not> list_ex ill_formed (body postfix_increment)"
  by (simp add: prefix_increment_def postfix_increment_def)

lemma increment_without_constexpr:
  "call_outcome (prefix_increment\<lparr>is_constexpr := False\<rparr>) = Flows_Off_The_End
   \<and> call_outcome (postfix_increment\<lparr>is_constexpr := False\<rparr>) = Flows_Off_The_End"
  by (simp add: call_outcome_def rejected_at_compile_time_def constexpr_without_return_def
      prefix_increment_def postfix_increment_def)

lemma increment_with_return:
  "call_outcome (prefix_increment\<lparr>body := body prefix_increment @ [Return_Statement]\<rparr>) = Returns"
  by (simp add: call_outcome_def rejected_at_compile_time_def constexpr_without_return_def
      prefix_increment_def)


text \<open>
  Claim C4. For a bucket index below the number of buckets, on a handle whose base pointer is
  a multiple of \<^verbatim>\<open>sizeof(value_type) * bucket_size\<close> and whose buckets all hold values,
  \<^verbatim>\<open>operator[]\<close> returns the slots stored at the base moved by \<open>index\<close> buckets, in order, and
  the address it reads from is a multiple of \<^verbatim>\<open>sizeof(value_type) * bucket_size\<close>. The claim
  promises nothing for an index outside the range, and neither does the theorem.
\<close>

theorem subscript_loads_bucket:
  assumes index: "index < num_buckets r"
    and aligned: "ref_data r mod (sizeof_value P * bucket_size P) = 0"
    and readable: "\<forall>b < num_buckets r. \<forall>k < bucket_size P.
                     mem (value_ptr_add P (bucket_ptr_add P (ref_data r) b) k) \<noteq> None"
  shows "ref_subscript P r index mem =
           Inr (map (\<lambda>k. the (mem (value_ptr_add P (bucket_ptr_add P (ref_data r) index) k)))
                  [0..<bucket_size P])
         \<and> bucket_ptr_add P (ref_data r) index mod (sizeof_value P * bucket_size P) = 0"
proof -
  let ?p = "bucket_ptr_add P (ref_data r) index"
  have al: "?p mod (sizeof_value P * bucket_size P) = 0"
    using aligned by (rule bucket_address_aligned)
  have "load_bucket P mem ?p = Inr (map (\<lambda>k. the (mem (value_ptr_add P ?p k))) [0..<bucket_size P])"
  proof (rule load_bucket_filled)
    fix k assume "k < bucket_size P"
    with readable index have "mem (value_ptr_add P ?p k) \<noteq> None" by blast
    then show "mem (value_ptr_add P ?p k) = Some (the (mem (value_ptr_add P ?p k)))" by simp
  qed
  with al show ?thesis
    by (simp add: ref_subscript_def builtin_assume_aligned_def ref_data_def ref_data_const_def
        reinterpret_cast_def)
qed

theorem subscript_loads_bucket_witness:
  "(2::nat) < num_buckets (bucket_storage_ref 3 64)
   \<and> ref_data (bucket_storage_ref 3 64) mod (sizeof_value params_2x4 * bucket_size params_2x4) = 0
   \<and> ref_subscript params_2x4 (bucket_storage_ref 3 64) 2
        [64 \<mapsto> 10::nat, 68 \<mapsto> 11, 72 \<mapsto> 20, 76 \<mapsto> 21, 80 \<mapsto> 30, 84 \<mapsto> 31] = Inr [30, 31]
   \<and> ref_subscript params_2x4 (bucket_storage_ref 3 64) 1
        [64 \<mapsto> 10::nat, 68 \<mapsto> 11, 72 \<mapsto> 20, 76 \<mapsto> 21, 80 \<mapsto> 30, 84 \<mapsto> 31] = Inr [20, 21]"
proof -
  let ?r = "bucket_storage_ref 3 64"
  let ?m = "[64 \<mapsto> 10::nat, 68 \<mapsto> 11, 72 \<mapsto> 20, 76 \<mapsto> 21, 80 \<mapsto> 30, 84 \<mapsto> 31]"
  have i2: "2 < num_buckets ?r" by (simp add: num_buckets_def bucket_storage_ref_def)
  have i1: "1 < num_buckets ?r" by (simp add: num_buckets_def bucket_storage_ref_def)
  have a: "ref_data ?r mod (sizeof_value params_2x4 * bucket_size params_2x4) = 0"
    by (simp add: ref_data_def bucket_storage_ref_def params_2x4_def)
  have b2: "bucket_size params_2x4 = 2" by (simp add: params_2x4_def)
  have n3: "num_buckets ?r = 3" by (simp add: num_buckets_def bucket_storage_ref_def)
  have address: "value_ptr_add params_2x4 (bucket_ptr_add params_2x4 (ref_data ?r) b) k =
      64 + b * 8 + k * 4" for b k
    by (simp add: value_ptr_add_def bucket_ptr_add_def sizeof_bucket_def ref_data_def
        bucket_storage_ref_def params_2x4_def)
  have rd: "\<forall>b < num_buckets ?r. \<forall>k < bucket_size params_2x4.
              ?m (value_ptr_add params_2x4 (bucket_ptr_add params_2x4 (ref_data ?r) b) k) \<noteq> None"
    unfolding address n3 b2 by (auto simp: less_Suc_eq numeral_3_eq_3 numeral_2_eq_2)
  have u: "[0..<bucket_size params_2x4] = [0, 1]" by (simp add: b2 upt_rec)
  have cells2: "map (\<lambda>k. the (?m (value_ptr_add params_2x4
                 (bucket_ptr_add params_2x4 (ref_data ?r) 2) k))) [0..<bucket_size params_2x4] = [30, 31]"
    unfolding u address by simp
  have cells1: "map (\<lambda>k. the (?m (value_ptr_add params_2x4
                 (bucket_ptr_add params_2x4 (ref_data ?r) 1) k))) [0..<bucket_size params_2x4] = [20, 21]"
    unfolding u address by simp
  note load2 = subscript_loads_bucket [OF i2 a rd, THEN conjunct1, unfolded cells2]
  note load1 = subscript_loads_bucket [OF i1 a rd, THEN conjunct1, unfolded cells1]
  show ?thesis
    by (intro conjI) (rule i2 a load2 load1)+
qed

subsection \<open>Initialisation of a storage without buckets\<close>

text \<open>
  Claim C5, as it is stated, has both \<^verbatim>\<open>initialize\<close> and \<^verbatim>\<open>initialize_async\<close> return at once
  for a storage without buckets. \<^verbatim>\<open>initialize\<close> calls \<^verbatim>\<open>stream.wait()\<close> whatever the number of
  buckets is. Here stream 0 holds the fill of a one-bucket storage at address 64, launched
  and not yet run; \<^verbatim>\<open>initialize\<close> of an empty storage on that stream then returns only after
  that fill has run, and leaves a device that differs from the one it was given.
\<close>

theorem initialize_empty_still_waits:
  "num_buckets (storage_at 128 params_2x4 0) = 0
   \<and> pending (initialize_async params_2x4 (storage_at 64 params_2x4 1) 7 0 idle_device) 0 =
       [Initialize_Launch 1 2 64 1 7]
   \<and> memory (initialize_async params_2x4 (storage_at 64 params_2x4 1) 7 0 idle_device) 64 = None
   \<and> pending (initialize params_2x4 (storage_at 128 params_2x4 0) 0 0
        (initialize_async params_2x4 (storage_at 64 params_2x4 1) 7 0 idle_device)) 0 = []
   \<and> memory (initialize params_2x4 (storage_at 128 params_2x4 0) 0 0
        (initialize_async params_2x4 (storage_at 64 params_2x4 1) 7 0 idle_device)) 64 = Some 7
   \<and> initialize params_2x4 (storage_at 128 params_2x4 0) 0 0
        (initialize_async params_2x4 (storage_at 64 params_2x4 1) 7 0 idle_device)
       \<noteq> initialize_async params_2x4 (storage_at 64 params_2x4 1) 7 0 idle_device"
proof -
  let ?d1 = "initialize_async params_2x4 (storage_at 64 params_2x4 1) 7 0 idle_device"
  let ?d2 = "initialize params_2x4 (storage_at 128 params_2x4 0) 0 0 ?d1"
  have n0: "num_buckets (storage_at 128 params_2x4 0) = 0"
    by (simp add: num_buckets_def storage_at_def)
  have d1: "?d1 = \<lparr>memory = (\<lambda>a. None), pending = (\<lambda>stream. [])(0 := [Initialize_Launch 1 2 64 1 7]),
                    launched = 1\<rparr>"
    by (simp add: initialize_async_def launch_kernel_def num_buckets_def storage_at_def
        idle_device_def grid_size_def params_2x4_def storage_data_def)
  have p1: "pending ?d1 0 = [Initialize_Launch 1 2 64 1 7]" unfolding d1 by simp
  have m1: "memory ?d1 64 = None" unfolding d1 by simp
  have d2: "?d2 = stream_wait params_2x4 0 ?d1"
    by (simp add: initialize_def initialize_async_empty [OF n0])
  have p2: "pending ?d2 0 = []" unfolding d2 by (simp add: stream_wait_def)
  have "run_launch params_2x4 (Initialize_Launch 1 2 64 1 7) (\<lambda>a. None) 64 = Some (7::nat)"
    using run_launch_sets [of "Initialize_Launch 1 2 64 1 (7::nat)" 0 0 params_2x4 "\<lambda>a. None"]
    by (simp add: params_2x4_def value_ptr_add_def bucket_ptr_add_def)
  then have "memory (stream_wait params_2x4 0 ?d1) 64 = Some 7"
    unfolding d1 by (simp add: stream_wait_def)
  then have m2: "memory ?d2 64 = Some 7" by (simp only: d2)
  have ne: "?d2 \<noteq> ?d1"
  proof
    assume "?d2 = ?d1"
    then have "pending ?d2 0 = pending ?d1 0" by simp
    with p1 p2 show False by simp
  qed
  show ?thesis by (intro conjI) (rule n0 p1 m1 p2 m2 ne)+
qed

text \<open>
  Claim C5, amended. For a storage without buckets, \<^verbatim>\<open>initialize_async\<close> returns at once: it
  launches no kernel and leaves the device as it is. \<^verbatim>\<open>initialize\<close> launches no kernel either,
  and does exactly what a wait on the stream does. Neither has an error result.
\<close>

theorem initialize_empty:
  assumes "num_buckets s = 0"
  shows "initialize_async P s key stream d = d
       \<and> initialize P s key stream d = stream_wait P stream d
       \<and> launched (initialize P s key stream d) = launched d
       \<and> launched (initialize_async P s key stream d) = launched d"
  using assms by (simp add: initialize_def initialize_async_def stream_wait_def)

theorem initialize_empty_witness:
  "num_buckets (storage_at 128 params_2x4 0) = 0
   \<and> initialize_async params_2x4 (storage_at 128 params_2x4 0) 0 0 idle_device = idle_device
   \<and> initialize params_2x4 (storage_at 128 params_2x4 0) 0 0 idle_device
       = stream_wait params_2x4 0 idle_device
   \<and> launched (initialize params_2x4 (storage_at 128 params_2x4 0) 0 0 idle_device) = 0"
proof -
  have n0: "num_buckets (storage_at 128 params_2x4 0) = 0"
    by (simp add: num_buckets_def storage_at_def)
  note T = initialize_empty [OF n0, of params_2x4 "0::nat" 0 idle_device]
  have l: "launched idle_device = 0" by (simp add: idle_device_def)
  show ?thesis
    by (intro conjI) (rule n0 T [THEN conjunct1] T [THEN conjunct2, THEN conjunct1]
        T [THEN conjunct2, THEN conjunct2, THEN conjunct1, unfolded l])+
qed

subsection \<open>Synchronous and asynchronous initialisation\<close>

text \<open>
  Claim C6. \<^verbatim>\<open>initialize\<close> is \<^verbatim>\<open>initialize_async\<close> followed by a wait on the same stream.
  \<^verbatim>\<open>initialize_async\<close> only appends its work to the stream and counts the launch: it leaves
  the memory as it is, so the host has waited for nothing. \<^verbatim>\<open>initialize\<close> submits the same
  work, returns with the stream drained, and leaves the memory that the launches of the
  stream, that work last, produce in order.
\<close>

theorem initialize_is_async_then_wait:
  "initialize P s key stream d = stream_wait P stream (initialize_async P s key stream d)
   \<and> initialize_async P s key stream d =
       d\<lparr>pending := (pending d)(stream := pending d stream @ submitted_work P s key),
         launched := launched d + length (submitted_work P s key)\<rparr>
   \<and> memory (initialize_async P s key stream d) = memory d
   \<and> initialize P s key stream d =
       \<lparr>memory = fold (run_launch P) (pending d stream @ submitted_work P s key) (memory d),
        pending = (pending d)(stream := []),
        launched = launched d + length (submitted_work P s key)\<rparr>
   \<and> pending (initialize P s key stream d) stream = []"
  by (simp add: initialize_def initialize_async_def stream_wait_def launch_kernel_def
      submitted_work_def fun_upd_idem)

subsection \<open>Construction and destruction\<close>

text \<open>
  Claim C7. When the constructor succeeds, it has called \<^verbatim>\<open>allocate\<close> of the given allocator
  once, with the capacity; the deleter it stores holds exactly that capacity and the stored
  allocator, and the smart pointer holds a copy of it; and destroying the owner calls
  \<^verbatim>\<open>deallocate\<close> of the same allocator with the pointer obtained and the same count. The
  deleter's call and the destructor are modelled from the spec.
\<close>

theorem deallocation_matches_allocation:
  assumes "bucket_storage P sz a calls = Inr (s, calls')"
  shows "calls' = calls @ [Allocate a (capacity P s) (storage_data s)]
       \<and> destroy s calls' = calls' @ [Deallocate a (storage_data s) (capacity P s)]
       \<and> bucket_deleter_member s = \<lparr>deleter_size = capacity P s, deleter_allocator = allocator_member s\<rparr>
       \<and> get_deleter (buckets_member s) = bucket_deleter_member s
       \<and> allocator_member s = a
       \<and> storage_allocator s = a"
  using assms
  by (auto simp: bucket_storage_def Let_def destroy_def run_deleter_def capacity_def num_buckets_def
      storage_data_def storage_allocator_def split: option.splits)

theorem deallocation_matches_allocation_witness:
  "bucket_storage params_2x4 3 (allocator_at 64) [] =
     Inr (storage_at 64 params_2x4 3, [Allocate (allocator_at 64) 6 64])
   \<and> destroy (storage_at 64 params_2x4 3) [Allocate (allocator_at 64) 6 64] =
       [Allocate (allocator_at 64) 6 64, Deallocate (allocator_at 64) 64 6]"
proof -
  have c: "bucket_storage params_2x4 3 (allocator_at 64) [] =
     Inr (storage_at 64 params_2x4 3, [Allocate (allocator_at 64) 6 64])"
    by (simp add: bucket_storage_def Let_def storage_at_def capacity_def num_buckets_def
        params_2x4_def allocator_at_def)
  have cap: "capacity params_2x4 (storage_at 64 params_2x4 3) = 6"
    by (simp add: capacity_def num_buckets_def storage_at_def params_2x4_def)
  have dat: "storage_data (storage_at 64 params_2x4 3) = 64"
    by (simp add: storage_data_def storage_at_def)
  note T = deallocation_matches_allocation [OF c, unfolded cap dat]
  show ?thesis using c T [THEN conjunct2, THEN conjunct1] by simp
qed

subsection \<open>The handle of an owner\<close>

text \<open>
  Claim C8. \<^verbatim>\<open>ref()\<close> returns the handle made of the owner's bucket extent and base pointer:
  its \<^verbatim>\<open>data()\<close> is the owner's, its number of buckets is the owner's, and two calls on the
  same owner return handles that agree on both. \<^verbatim>\<open>ref()\<close> is a function of the owner and
  returns nothing but the handle, so it changes nothing.
\<close>

theorem ref_stability:
  "storage_ref s = \<lparr>extent = bucket_extent s, ref_buckets = storage_data s\<rparr>
   \<and> ref_data (storage_ref s) = storage_data s
   \<and> num_buckets (storage_ref s) = num_buckets s
   \<and> (let first = storage_ref s; second = storage_ref s
      in ref_data first = ref_data second \<and> num_buckets first = num_buckets second)"
  by (simp add: storage_ref_def bucket_storage_ref_def ref_data_def num_buckets_def
      bucket_extent_def)

subsection \<open>Iterators\<close>

text \<open>
  Claim C9. Two iterators built from slot pointers \<open>p\<close> and \<open>q\<close> compare equal exactly when
  \<open>p = q\<close>, and \<^verbatim>\<open>!=\<close> is the negation of \<^verbatim>\<open>==\<close>.
\<close>

theorem iterator_equality:
  "iterator_eq (iterator p) (iterator q) = (p = q)
   \<and> iterator_neq (iterator p) (iterator q) = (\<not> iterator_eq (iterator p) (iterator q))
   \<and> iterator_neq (iterator p) (iterator q) = (p \<noteq> q)"
  by (simp add: iterator_eq_def iterator_neq_def iterator_def)

text \<open>
  Claim C10. On the same handle the const and the non-const overload of \<^verbatim>\<open>data()\<close> return the
  same pointer, and the const and the non-const overload of \<^verbatim>\<open>end()\<close> return the same
  iterator, which holds the same address.
\<close>

theorem overloads_agree:
  "ref_data r = ref_data_const r
   \<and> ref_end P r = ref_end_const P r
   \<and> current (ref_end P r) = current (ref_end_const P r)"
  by (simp add: ref_data_def ref_data_const_def ref_end_def ref_end_const_def)

end
